theory Spec2Isabelle
  imports Main "HOL-Library.Word"
begin

section \<open>The rocketlst_air board layer (radios/rocketlst_air/board.h)\<close>

text \<open>
  The header fixes the build-time constants of the board and defines the two radio hooks
  as statement macros over the bit-addressable port pin \<open>P2_0\<close>:
  \<^verbatim>\<open>
  #define board_pre_tx() P2_0 = 1;
  #define board_pre_rx() P2_0 = 0;
  \<close>
  It declares \<open>void board_init(void)\<close> and \<open>void board_led_set(__bit led_on)\<close>, whose
  bodies live in the board's C file.
\<close>

subsection \<open>Build-time constants\<close>

text \<open>Each \<open>#define\<close> of the header, with the value the preprocessor substitutes.\<close>

definition F_CLK :: int where
  "F_CLK = 27000000"

definition CUSTOM_BOARD_INIT :: int where
  "CUSTOM_BOARD_INIT = 1"

definition BOARD_HAS_TX_HOOK :: int where
  "BOARD_HAS_TX_HOOK = 1"

definition BOARD_HAS_RX_HOOK :: int where
  "BOARD_HAS_RX_HOOK = 1"

definition CONFIG_CAPABLE_RF_RX :: int where
  "CONFIG_CAPABLE_RF_RX = 0"

definition CONFIG_CAPABLE_RF_TX :: int where
  "CONFIG_CAPABLE_RF_TX = 1"

definition AUTO_REBOOT_SECONDS :: int where
  "AUTO_REBOOT_SECONDS = 0"

text \<open>\<open>0x0E\<close>, the only \<open>RF_PA_CONFIG\<close> line that is not commented out.\<close>

definition RF_PA_CONFIG :: "8 word" where
  "RF_PA_CONFIG = 0x0E"

text \<open>\<open>0b00000011\<close>: an eight-bit mask, one bit per analog input \<open>AN0 .. AN7\<close>.\<close>

definition ADCCFG_CONFIG :: "8 word" where
  "ADCCFG_CONFIG = 3"

definition RADIO_RANGING_RESPONDER :: int where
  "RADIO_RANGING_RESPONDER = 1"

definition BOARD_HAS_LED :: int where
  "BOARD_HAS_LED = 1"

subsection \<open>The signals the layer writes\<close>

text \<open>
  The state the board layer acts on. \<open>P2_0\<close> is the pin the two hook macros assign; it is
  a single bit (\<open>__bit\<close>), modelled as a \<open>bool\<close> with \<open>1\<close> as \<open>True\<close>. The header
  names no register for the LED or for the ADC input selection: \<open>LedState\<close> is the binary
  LED output of the specification's data model and \<open>ADCCFG\<close> the eight-bit register that
  \<open>ADCCFG_CONFIG\<close> is the configuration of. The record is extensible, so a statement over
  \<open>'a board_state_scheme\<close> holds for every further register a state may carry.
\<close>

record board_state =
  P2_0 :: bool
  LedState :: bool
  ADCCFG :: "8 word"

subsection \<open>The hooks\<close>

text \<open>\<^verbatim>\<open>#define board_pre_tx() P2_0 = 1;\<close>  (enable the bias of the power amplifier)\<close>

definition board_pre_tx :: "'a board_state_scheme \<Rightarrow> 'a board_state_scheme" where
  "board_pre_tx s = s\<lparr>P2_0 := True\<rparr>"

text \<open>\<^verbatim>\<open>#define board_pre_rx() P2_0 = 0;\<close>  (disable the bias of the power amplifier)\<close>

definition board_pre_rx :: "'a board_state_scheme \<Rightarrow> 'a board_state_scheme" where
  "board_pre_rx s = s\<lparr>P2_0 := False\<rparr>"

text \<open>
  A caller of the hooks: the radio stack expands the macros one after the other. A call
  sequence is a list of hook names, run from its head.
\<close>

datatype hook = PRE_TX | PRE_RX

fun run_hook :: "hook \<Rightarrow> 'a board_state_scheme \<Rightarrow> 'a board_state_scheme" where
  "run_hook PRE_TX s = board_pre_tx s"
| "run_hook PRE_RX s = board_pre_rx s"

fun run_hooks :: "hook list \<Rightarrow> 'a board_state_scheme \<Rightarrow> 'a board_state_scheme" where
  "run_hooks [] s = s"
| "run_hooks (h # hs) s = run_hooks hs (run_hook h s)"

subsection \<open>Operations whose bodies are outside the header\<close>

text \<open>
  Modelled from the spec: the body of \<open>board_init\<close>, which the header only declares
  (\<open>void board_init(void);\<close>). The specification gives it two parts: the pin
  directions, and the peripheral enables for the ADC channel mask. Neither the header nor
  the specification names a direction register or says which pins are set up, so the pin
  bring-up is the parameter \<open>pin_setup\<close>, any function on the state (on every register
  the state carries); after it the ADC input configuration register receives
  \<open>ADCCFG_CONFIG\<close>, the known state in which the specification has \<open>init\<close> leave it.
\<close>

definition board_init ::
  "('a board_state_scheme \<Rightarrow> 'a board_state_scheme) \<Rightarrow>
   'a board_state_scheme \<Rightarrow> 'a board_state_scheme" where
  "board_init pin_setup s = (pin_setup s)\<lparr>ADCCFG := ADCCFG_CONFIG\<rparr>"

text \<open>
  Modelled from the spec: the body of \<open>board_led_set\<close>, which the header only declares
  (\<open>void board_led_set(__bit led_on);\<close>). The specification says that it drives the
  status LED, a single binary output that is a direct function of the last call.
\<close>

definition board_led_set :: "bool \<Rightarrow> 'a board_state_scheme \<Rightarrow> 'a board_state_scheme" where
  "board_led_set led_on s = s\<lparr>LedState := led_on\<rparr>"

text \<open>
  Modelled from the spec: the state of the signals at boot, before \<open>board_init\<close> and
  before any hook. Nothing in the header sets it; the specification fixes the bias line
  only (default-off). The LED output and the ADC register at boot are left as parameters.
\<close>

definition boot_state :: "bool \<Rightarrow> 8 word \<Rightarrow> board_state" where
  "boot_state led adc = \<lparr>P2_0 = False, LedState = led, ADCCFG = adc\<rparr>"

section \<open>Properties\<close>

subsection \<open>Auxiliary facts\<close>

lemma run_hooks_append: "run_hooks (hs @ hs') s = run_hooks hs' (run_hooks hs s)"
  by (induction hs arbitrary: s) simp_all

lemma P2_0_run_hook: "P2_0 (run_hook h s) = (h = PRE_TX)"
  by (cases h) (simp_all add: board_pre_tx_def board_pre_rx_def)

lemma run_hook_twice: "run_hook h (run_hook h s) = run_hook h s"
  by (cases h) (simp_all add: board_pre_tx_def board_pre_rx_def)

lemma bit_ADCCFG_CONFIG: "bit ADCCFG_CONFIG n \<longleftrightarrow> n = 0 \<or> n = 1"
proof (cases "n < 2")
  case True
  then have "n = 0 \<or> n = 1" by arith
  then show ?thesis by (auto simp: ADCCFG_CONFIG_def)
next
  case False
  then obtain m where n: "n = Suc (Suc m)" by (metis not_less_eq numeral_2_eq_2 less_Suc_eq_0_disj not0_implies_Suc)
  have "\<not> bit (3 :: 8 word) (Suc (Suc m))"
    by (simp add: bit_Suc)
  with False n show ?thesis by (simp add: ADCCFG_CONFIG_def)
qed

subsection \<open>The hooks and the bias line\<close>

text \<open>
  C2. \<open>board_pre_tx\<close> asserts the bias line of the power amplifier: from every state, the
  pin \<open>P2_0\<close> reads 1 after the hook. The hook has no argument and no failure outcome: it is
  a function from states to states, defined on every state.
\<close>

theorem board_pre_tx_asserts_bias: "P2_0 (board_pre_tx s) = True"
  by (simp add: board_pre_tx_def)

text \<open>
  C3. \<open>board_pre_rx\<close> deasserts the bias line of the power amplifier: from every state, the
  pin \<open>P2_0\<close> reads 0 after the hook.
\<close>

theorem board_pre_rx_deasserts_bias: "P2_0 (board_pre_rx s) = False"
  by (simp add: board_pre_rx_def)

text \<open>
  C1. After any sequence of hook calls, the bias line is in the state of the most recent
  call: a sequence that ends with the call \<open>h\<close> leaves \<open>P2_0\<close> asserted exactly when \<open>h\<close>
  is \<open>board_pre_tx\<close>, whatever the earlier calls \<open>hs\<close> and the starting state \<open>s\<close> were; the
  line reads as it does after \<open>h\<close> alone from any other state \<open>s'\<close> (no dependency on the
  history); and the same hook twice in a row gives the state of one call.
\<close>

theorem bias_follows_last_hook:
  "P2_0 (run_hooks (hs @ [h]) s) = (h = PRE_TX)
   \<and> P2_0 (run_hooks (hs @ [h]) s) = P2_0 (run_hook h s')
   \<and> run_hooks [h, h] s = run_hooks [h] s
   \<and> board_pre_tx (board_pre_tx s) = board_pre_tx s
   \<and> board_pre_rx (board_pre_rx s) = board_pre_rx s"
proof -
  have last_call: "P2_0 (run_hooks (hs @ [h]) s) = (h = PRE_TX)"
    by (simp add: run_hooks_append P2_0_run_hook)
  have twice: "run_hooks [h, h] s = run_hooks [h] s"
    by (simp add: run_hook_twice)
  have tx: "board_pre_tx (board_pre_tx s) = board_pre_tx s"
    by (simp add: board_pre_tx_def)
  have rx: "board_pre_rx (board_pre_rx s) = board_pre_rx s"
    by (simp add: board_pre_rx_def)
  from last_call twice tx rx show ?thesis
    by (simp add: P2_0_run_hook)
qed

text \<open>
  C4, as the header has it. The board declares \<open>CONFIG_CAPABLE_RF_RX 0\<close> and, next to it,
  \<open>BOARD_HAS_RX_HOOK 1\<close>; the macro \<open>board_pre_rx\<close> is defined without any guard on the
  receive capability and clears \<open>P2_0\<close> from every state. A call leaves the board state
  as it was exactly when the bias line was already deasserted.
\<close>

theorem board_pre_rx_noop_iff_bias_off:
  "CONFIG_CAPABLE_RF_RX = 0 \<and> BOARD_HAS_RX_HOOK = 1
   \<and> P2_0 (board_pre_rx s) = False
   \<and> (board_pre_rx s = s) = (P2_0 s = False)"
proof -
  have "(s\<lparr>P2_0 := False\<rparr> = s) = (P2_0 s = False)"
  proof
    assume "s\<lparr>P2_0 := False\<rparr> = s"
    then have "P2_0 (s\<lparr>P2_0 := False\<rparr>) = P2_0 s" by simp
    then show "P2_0 s = False" by simp
  next
    assume "P2_0 s = False"
    then show "s\<lparr>P2_0 := False\<rparr> = s" by simp
  qed
  then show ?thesis
    by (simp add: board_pre_rx_def CONFIG_CAPABLE_RF_RX_def BOARD_HAS_RX_HOOK_def)
qed

text \<open>
  C4, as the claim states it, fails: with the flag \<open>CONFIG_CAPABLE_RF_RX\<close> at 0, a call of
  \<open>board_pre_rx\<close> in a state with the bias line asserted (the state after \<open>board_pre_tx\<close>)
  gives a different state.
\<close>

theorem board_pre_rx_observable:
  "CONFIG_CAPABLE_RF_RX = 0
   \<and> board_pre_rx \<lparr>P2_0 = True, LedState = False, ADCCFG = 3\<rparr>
       \<noteq> \<lparr>P2_0 = True, LedState = False, ADCCFG = 3\<rparr>
   \<and> board_pre_rx (board_pre_tx \<lparr>P2_0 = False, LedState = False, ADCCFG = 3\<rparr>)
       \<noteq> board_pre_tx \<lparr>P2_0 = False, LedState = False, ADCCFG = 3\<rparr>"
  by (simp add: board_pre_rx_def board_pre_tx_def CONFIG_CAPABLE_RF_RX_def)

text \<open>
  C9. Frame of the hooks: each of them writes the pin \<open>P2_0\<close> and nothing else. The LED
  output, the ADC register and every further component of the state are the same before
  and after, so that putting the old value of \<open>P2_0\<close> back gives the old state. The
  capability flags, the ADC mask, the clock and the power settings are constants of the
  build and no part of the state that a hook could write.
\<close>

theorem hooks_write_only_bias:
  "LedState (board_pre_tx s) = LedState s
   \<and> ADCCFG (board_pre_tx s) = ADCCFG s
   \<and> board_state.more (board_pre_tx s) = board_state.more s
   \<and> (board_pre_tx s)\<lparr>P2_0 := P2_0 s\<rparr> = s
   \<and> LedState (board_pre_rx s) = LedState s
   \<and> ADCCFG (board_pre_rx s) = ADCCFG s
   \<and> board_state.more (board_pre_rx s) = board_state.more s
   \<and> (board_pre_rx s)\<lparr>P2_0 := P2_0 s\<rparr> = s"
  by (simp add: board_pre_tx_def board_pre_rx_def)

subsection \<open>Capability flags\<close>

text \<open>
  C5. The flags declare the board transmit-capable and not receive-capable,
  \<open>CONFIG_CAPABLE_RF_TX = 1\<close> and \<open>CONFIG_CAPABLE_RF_RX = 0\<close>; and in the boot state,
  before any hook is called, the bias line is deasserted.
\<close>

theorem flags_tx_only_and_boot_bias_off:
  "CONFIG_CAPABLE_RF_TX = 1 \<and> CONFIG_CAPABLE_RF_RX = 0
   \<and> P2_0 (boot_state led adc) = False
   \<and> P2_0 (run_hooks [] (boot_state led adc)) = False"
  by (simp add: CONFIG_CAPABLE_RF_TX_def CONFIG_CAPABLE_RF_RX_def boot_state_def)

text \<open>
  C10. The board declares itself a ranging responder, \<open>RADIO_RANGING_RESPONDER = 1\<close>,
  and not capable of receiving, \<open>CONFIG_CAPABLE_RF_RX = 0\<close>: the two flags differ, so the
  first is not a consequence of the second.
\<close>

theorem ranging_responder_without_rx:
  "RADIO_RANGING_RESPONDER = 1 \<and> CONFIG_CAPABLE_RF_RX = 0
   \<and> RADIO_RANGING_RESPONDER \<noteq> CONFIG_CAPABLE_RF_RX"
  by (simp add: RADIO_RANGING_RESPONDER_def CONFIG_CAPABLE_RF_RX_def)

subsection \<open>Initialisation and the LED\<close>

text \<open>
  C6. After \<open>board_init\<close> the ADC register holds the configured mask \<open>0b00000011\<close>: the
  enabled inputs are exactly the two sense lines \<open>AN0\<close> and \<open>AN1\<close> (bits 0 and 1),
  from every state \<open>s\<close> and whatever the pin bring-up \<open>pin_setup\<close> does.
\<close>

theorem board_init_enables_AN0_AN1:
  "ADCCFG (board_init pin_setup s) = ADCCFG_CONFIG
   \<and> ADCCFG (board_init pin_setup s) = 3
   \<and> {n. bit (ADCCFG (board_init pin_setup s)) n} = {0, 1}
   \<and> card {n. bit (ADCCFG (board_init pin_setup s)) n} = 2"
proof -
  have reg: "ADCCFG (board_init pin_setup s) = ADCCFG_CONFIG"
    by (simp add: board_init_def)
  have bits: "{n. bit ADCCFG_CONFIG n} = {0, 1}"
    by (auto simp: bit_ADCCFG_CONFIG)
  have "card {n. bit ADCCFG_CONFIG n} = 2"
    by (simp add: bits)
  with reg bits show ?thesis
    by (simp add: ADCCFG_CONFIG_def)
qed

text \<open>
  C7. \<open>board_led_set\<close> with 1 and then with 0 leaves the LED deasserted, and a second call
  with the same value leaves the state of the first call.
\<close>

theorem board_led_set_last_value:
  "LedState (board_led_set False (board_led_set True s)) = False
   \<and> board_led_set b (board_led_set b s) = board_led_set b s"
  by (simp add: board_led_set_def)

end
